theory Spec2Isabelle
  imports Main
begin

section \<open>Provider types (lib/providers/types.ts)\<close>

text \<open>
  The dual-provider image generation core of the repository: the error classifier, the
  two provider adapters (Hugging Face as primary, Cloudflare Workers AI as fallback) and
  the Provider Manager that calls the primary and falls back to the secondary.

  JavaScript values are modelled as follows. An optional field or parameter
  (\<^verbatim>\<open>x?: T\<close>) is a \<open>T option\<close>, \<open>None\<close> standing for \<^verbatim>\<open>undefined\<close>. An HTTP
  status and a retry time in seconds are integers (\<^verbatim>\<open>Response.status\<close> is an integer, and
  \<^verbatim>\<open>parseRetryAfter\<close> only lets through what \<^verbatim>\<open>parseInt\<close> parsed). A string is truthy
  when it is not empty.
\<close>

datatype ProviderName = huggingface | cloudflare

datatype ProviderErrorCode =
    RATE_LIMIT
  | TIMEOUT
  | SERVICE_UNAVAILABLE
  | SERVER_ERROR
  | UNAUTHORIZED
  | VALIDATION_ERROR
  | PAYMENT_REQUIRED
  | UNKNOWN

record ProviderError =
  code :: ProviderErrorCode
  message :: string
  retryAfter :: "int option"
  shouldFallback :: bool

record ProviderResult =
  pr_success :: bool
  pr_image :: "string option"
  pr_error :: "ProviderError option"

datatype StylePreset = default | warm | monochrome | pastel

record GenerationOptions =
  style :: StylePreset
  negativePrompt :: "string option"
  timeout :: "int option"

text \<open>
  An image provider has a name and a \<^verbatim>\<open>generate\<close> method. The method is asynchronous and
  talks to the outside world; here it takes the state of the world and returns the new
  one with its result.
\<close>

record 'w ImageProvider =
  name :: ProviderName
  generate :: "string \<Rightarrow> GenerationOptions \<Rightarrow> 'w \<Rightarrow> ProviderResult \<times> 'w"

definition FALLBACK_HTTP_STATUSES :: "int list" where
  "FALLBACK_HTTP_STATUSES = [402, 403, 429, 500, 503]"

definition NON_FALLBACK_HTTP_STATUSES :: "int list" where
  "NON_FALLBACK_HTTP_STATUSES = [400, 401]"

definition shouldTriggerFallback :: "int \<Rightarrow> bool" where
  "shouldTriggerFallback status =
     (if status \<in> set FALLBACK_HTTP_STATUSES then True
      else if status \<in> set NON_FALLBACK_HTTP_STATUSES then False
      else if status \<ge> 500 \<and> status < 600 then True
      else False)"

fun shouldFallbackForErrorCode :: "ProviderErrorCode \<Rightarrow> bool" where
  "shouldFallbackForErrorCode RATE_LIMIT = True"
| "shouldFallbackForErrorCode TIMEOUT = True"
| "shouldFallbackForErrorCode SERVICE_UNAVAILABLE = True"
| "shouldFallbackForErrorCode SERVER_ERROR = True"
| "shouldFallbackForErrorCode PAYMENT_REQUIRED = True"
| "shouldFallbackForErrorCode UNAUTHORIZED = False"
| "shouldFallbackForErrorCode VALIDATION_ERROR = False"
| "shouldFallbackForErrorCode UNKNOWN = False"

definition httpStatusToErrorCode :: "int \<Rightarrow> ProviderErrorCode" where
  "httpStatusToErrorCode status =
     (if status = 402 \<or> status = 403 then PAYMENT_REQUIRED
      else if status = 429 then RATE_LIMIT
      else if status = 408 then TIMEOUT
      else if status = 503 then SERVICE_UNAVAILABLE
      else if status = 500 then SERVER_ERROR
      else if status = 401 then UNAUTHORIZED
      else if status = 400 then VALIDATION_ERROR
      else if status \<ge> 500 \<and> status < 600 then SERVER_ERROR
      else UNKNOWN)"

text \<open>\<^verbatim>\<open>a || b\<close> on an optional string: \<open>a\<close> when it is defined and not empty, else \<open>b\<close>.\<close>

definition or_else :: "string option \<Rightarrow> string \<Rightarrow> string" where
  "or_else a b = (case a of None \<Rightarrow> b | Some s \<Rightarrow> if s = [] then b else s)"

text \<open>The table \<^verbatim>\<open>defaultMessages\<close> of \<^verbatim>\<open>createProviderError\<close>.\<close>

fun defaultMessages :: "ProviderErrorCode \<Rightarrow> string" where
  "defaultMessages RATE_LIMIT = ''Too many requests. Please try again later.''"
| "defaultMessages TIMEOUT = ''Request timed out. Please try again.''"
| "defaultMessages SERVICE_UNAVAILABLE =
     ''Service is currently unavailable. Please try again later.''"
| "defaultMessages SERVER_ERROR = ''A server error occurred. Please try again.''"
| "defaultMessages UNAUTHORIZED = ''Authentication error occurred. Please refresh the page.''"
| "defaultMessages VALIDATION_ERROR = ''Invalid request. Please check your input.''"
| "defaultMessages PAYMENT_REQUIRED = ''Service quota exhausted. Switching to backup provider.''"
| "defaultMessages UNKNOWN = ''An unexpected error occurred.''"

definition createProviderError :: "int \<Rightarrow> string option \<Rightarrow> int option \<Rightarrow> ProviderError" where
  "createProviderError status msg retry =
     (let c = httpStatusToErrorCode status;
          fb = shouldTriggerFallback status
      in \<lparr> code = c,
           message = or_else msg (defaultMessages c),
           retryAfter = (if c = RATE_LIMIT
                         then Some (case retry of None \<Rightarrow> 60 | Some r \<Rightarrow> r)
                         else retry),
           shouldFallback = fb \<rparr>)"

definition createTimeoutError :: ProviderError where
  "createTimeoutError =
     \<lparr> code = TIMEOUT,
       message = ''Request timed out. Please try again.'',
       retryAfter = None,
       shouldFallback = True \<rparr>"

section \<open>The Cloudflare classifier (lib/providers/cloudflare-provider.ts)\<close>

text \<open>The table \<^verbatim>\<open>defaultMessages\<close> of \<^verbatim>\<open>classifyCloudflareError\<close>.\<close>

fun cloudflareDefaultMessages :: "ProviderErrorCode \<Rightarrow> string" where
  "cloudflareDefaultMessages RATE_LIMIT = ''Too many requests. Please try again later.''"
| "cloudflareDefaultMessages TIMEOUT = ''Request timed out. Please try again.''"
| "cloudflareDefaultMessages SERVICE_UNAVAILABLE =
     ''Service is currently unavailable. Please try again later.''"
| "cloudflareDefaultMessages SERVER_ERROR = ''A server error occurred. Please try again.''"
| "cloudflareDefaultMessages UNAUTHORIZED = ''Authentication error occurred.''"
| "cloudflareDefaultMessages VALIDATION_ERROR = ''Invalid request. Please check your input.''"
| "cloudflareDefaultMessages PAYMENT_REQUIRED = ''Service quota exhausted.''"
| "cloudflareDefaultMessages UNKNOWN = ''An unexpected error occurred.''"

definition classifyCloudflareError ::
  "int \<Rightarrow> string option \<Rightarrow> int option \<Rightarrow> ProviderError" where
  "classifyCloudflareError status msg retry =
     (let c = httpStatusToErrorCode status
      in \<lparr> code = c,
           message = or_else msg (cloudflareDefaultMessages c),
           retryAfter = (if c = RATE_LIMIT then retry else None),
           shouldFallback = False \<rparr>)"

section \<open>The Provider Manager (lib/providers/provider-manager.ts)\<close>

datatype DualCode = DUAL_PROVIDER_FAILURE

record DualProviderError =
  de_code :: DualCode
  de_message :: string
  de_primaryError :: string
  de_fallbackError :: string
  de_retryAfter :: "int option"
  de_shouldFallback :: bool

text \<open>The field \<^verbatim>\<open>error\<close> of a generation result is a \<^verbatim>\<open>ProviderError | DualProviderError\<close>.\<close>

datatype GenerationError = Single ProviderError | Dual DualProviderError

record GenerationResult =
  gr_success :: bool
  gr_image :: "string option"
  gr_provider :: "ProviderName option"
  gr_error :: "GenerationError option"
  gr_fallbackAttempted :: "bool option"

record 'w ProviderManager =
  primaryProvider :: "'w ImageProvider"
  fallbackProvider :: "'w ImageProvider"

definition calculateMinRetryTime :: "ProviderError \<Rightarrow> ProviderError option \<Rightarrow> int option" where
  "calculateMinRetryTime primaryError fallbackError =
     (let primaryRetry = retryAfter primaryError;
          fallbackRetry = (case fallbackError of None \<Rightarrow> None | Some f \<Rightarrow> retryAfter f)
      in case (primaryRetry, fallbackRetry) of
           (Some a, Some b) \<Rightarrow> Some (min a b)
         | (Some a, None) \<Rightarrow> Some a
         | (None, Some b) \<Rightarrow> Some b
         | (None, None) \<Rightarrow> None)"

definition createDualProviderError ::
  "ProviderError \<Rightarrow> ProviderError option \<Rightarrow> DualProviderError" where
  "createDualProviderError primaryError fallbackError =
     (let retry = calculateMinRetryTime primaryError fallbackError
      in \<lparr> de_code = DUAL_PROVIDER_FAILURE,
           de_message = ''Both image generation services are currently unavailable.'',
           de_primaryError = message primaryError,
           de_fallbackError =
             or_else (map_option message fallbackError) ''Unknown fallback error'',
           de_retryAfter = retry,
           de_shouldFallback = False \<rparr>)"

text \<open>
  \<^verbatim>\<open>ProviderManager.generate\<close>. The primary provider runs in the world \<open>w0\<close>; the fallback
  provider, when it runs, runs in the world the primary left. A field the source's object
  literal leaves out is \<open>None\<close>.
\<close>

definition ProviderManager_generate ::
  "'w ProviderManager \<Rightarrow> string \<Rightarrow> GenerationOptions \<Rightarrow> 'w \<Rightarrow> GenerationResult \<times> 'w" where
  "ProviderManager_generate this prompt options w0 =
     (case generate (primaryProvider this) prompt options w0 of (primaryResult, w1) \<Rightarrow>
        if pr_success primaryResult then
          (\<lparr> gr_success = True,
              gr_image = pr_image primaryResult,
              gr_provider = Some (name (primaryProvider this)),
              gr_error = None,
              gr_fallbackAttempted = Some False \<rparr>, w1)
        else
          (case pr_error primaryResult of
             None \<Rightarrow>
               (\<lparr> gr_success = False,
                   gr_image = None,
                   gr_provider = Some (name (primaryProvider this)),
                   gr_error = None,
                   gr_fallbackAttempted = Some False \<rparr>, w1)
           | Some primaryError \<Rightarrow>
               if \<not> shouldFallback primaryError then
                 (\<lparr> gr_success = False,
                     gr_image = None,
                     gr_provider = Some (name (primaryProvider this)),
                     gr_error = Some (Single primaryError),
                     gr_fallbackAttempted = Some False \<rparr>, w1)
               else
                 (case generate (fallbackProvider this) prompt options w1 of
                    (fallbackResult, w2) \<Rightarrow>
                      if pr_success fallbackResult then
                        (\<lparr> gr_success = True,
                            gr_image = pr_image fallbackResult,
                            gr_provider = Some (name (fallbackProvider this)),
                            gr_error = None,
                            gr_fallbackAttempted = Some True \<rparr>, w2)
                      else
                        (\<lparr> gr_success = False,
                            gr_image = None,
                            gr_provider = None,
                            gr_error = Some (Dual (createDualProviderError primaryError
                                                     (pr_error fallbackResult))),
                            gr_fallbackAttempted = Some True \<rparr>, w2))))"

text \<open>
  Observing the calls, as a test's mock provider does: a provider wrapped by \<open>spy\<close>
  behaves as the provider it wraps and appends each call it receives, with its arguments,
  to a log kept beside the world.
\<close>

datatype Role = Primary | Secondary

record Call =
  call_role :: Role
  call_prompt :: string
  call_options :: GenerationOptions

definition spy :: "Role \<Rightarrow> 'w ImageProvider \<Rightarrow> ('w \<times> Call list) ImageProvider" where
  "spy r p =
     \<lparr> name = name p,
       generate = (\<lambda>prompt options (w, calls).
          case generate p prompt options w of (res, w') \<Rightarrow>
            (res, (w', calls @ [\<lparr> call_role = r, call_prompt = prompt,
                                   call_options = options \<rparr>]))) \<rparr>"

definition spied :: "'w ImageProvider \<Rightarrow> 'w ImageProvider \<Rightarrow> ('w \<times> Call list) ProviderManager" where
  "spied p f = \<lparr> primaryProvider = spy Primary p, fallbackProvider = spy Secondary f \<rparr>"

text \<open>A provider result that makes the manager fall back: a failure whose error is
  present and has \<^verbatim>\<open>shouldFallback\<close> set.\<close>

definition recoverable_failure :: "ProviderResult \<Rightarrow> bool" where
  "recoverable_failure r =
     (\<not> pr_success r \<and> (case pr_error r of None \<Rightarrow> False | Some e \<Rightarrow> shouldFallback e))"

section \<open>What the adapters run on\<close>

text \<open>
  The adapters read the process environment, call \<^verbatim>\<open>fetch\<close> and use a few functions of
  the JavaScript runtime. None of that is code of the repository, so it is a parameter of
  the model, the record \<open>Platform\<close>.
\<close>

record Env =
  HUGGINGFACE_API_KEY :: "string option"
  CLOUDFLARE_ACCOUNT_ID :: "string option"
  CLOUDFLARE_API_TOKEN :: "string option"

text \<open>The JSON body of a Cloudflare response, \<^verbatim>\<open>CloudflareImageResponse\<close>.\<close>

record CloudflareApiError =
  cf_error_code :: int
  cf_error_message :: string

record CloudflareResult =
  cf_image :: "string option"

record CloudflareImageResponse =
  cf_success :: bool
  cf_result :: "CloudflareResult option"
  cf_errors :: "CloudflareApiError list option"
  cf_messages :: "string list option"

text \<open>
  An HTTP response, by what the adapters read of it: \<^verbatim>\<open>ok\<close>, \<^verbatim>\<open>status\<close>,
  \<^verbatim>\<open>headers.get('Retry-After')\<close>, and the body through \<^verbatim>\<open>text()\<close>, \<^verbatim>\<open>json()\<close> (read at the
  type \<^verbatim>\<open>CloudflareImageResponse\<close>) and \<^verbatim>\<open>blob()\<close> (the bytes, already in base 64 as
  \<^verbatim>\<open>Buffer.from(arrayBuffer).toString('base64')\<close> gives them). A body reader that rejects or
  throws is \<open>None\<close>.
\<close>

record Response =
  ok :: bool
  status :: int
  header_Retry_After :: "string option"
  body_text :: "string option"
  body_json :: "CloudflareImageResponse option"
  body_base64 :: "string option"

text \<open>A value thrown by \<^verbatim>\<open>fetch\<close>: an \<^verbatim>\<open>Error\<close> with its name and message, or anything else.\<close>

datatype Thrown = JsError string string | NonError

datatype FetchOutcome = Responded Response | Threw Thrown

datatype RequestBody =
    HuggingFaceBody string string
  | CloudflareBody string

text \<open>
  A request: the URL, the \<^verbatim>\<open>Authorization\<close> header, the JSON body (\<open>HuggingFaceBody\<close> with
  \<^verbatim>\<open>inputs\<close> and \<^verbatim>\<open>parameters.negative_prompt\<close>, \<open>CloudflareBody\<close> with \<^verbatim>\<open>prompt\<close>) and the
  time in milliseconds after which the adapter's timer aborts it.
\<close>

record Request =
  url :: string
  authorization :: string
  body :: RequestBody
  timeoutMs :: int

text \<open>
  \<open>JSON.parse(text)\<close> as \<^verbatim>\<open>HuggingFaceProvider.getErrorMessage\<close> uses it: \<open>ParseThrows\<close> when
  parsing or reading a field of the parsed value throws, else the fields \<^verbatim>\<open>error\<close> and
  \<^verbatim>\<open>message\<close> of the parsed value. The method is declared to return
  \<^verbatim>\<open>string | undefined\<close>, and the model covers the bodies that keep to it: those whose
  \<^verbatim>\<open>error\<close> and \<^verbatim>\<open>message\<close> fields are strings or absent (\<open>None\<close> also stands for a falsy
  field, which \<^verbatim>\<open>||\<close> skips like an absent one). A body whose field is an object, an array,
  a nonzero number or \<^verbatim>\<open>true\<close> makes the source return that value as the message; no
  string stands for it and such bodies are outside the model.
\<close>

datatype ParsedJson = ParseThrows | ParsedFields "string option" "string option"

text \<open>
  The platform: the environment variables, \<^verbatim>\<open>parseInt(s, 10)\<close> (\<open>None\<close> is \<^verbatim>\<open>NaN\<close>),
  \<^verbatim>\<open>JSON.parse\<close>, and the network, which answers a request given the requests sent before.
  The world the adapters change is the list of the requests sent so far.
\<close>

record Platform =
  env :: Env
  parseInt :: "string \<Rightarrow> int option"
  JSON_parse :: "string \<Rightarrow> ParsedJson"
  network :: "Request list \<Rightarrow> Request \<Rightarrow> FetchOutcome"

definition fetch :: "Platform \<Rightarrow> Request \<Rightarrow> Request list \<Rightarrow> FetchOutcome \<times> Request list" where
  "fetch pf req sent = (network pf sent req, sent @ [req])"

section \<open>Environment configuration (lib/env.ts)\<close>

text \<open>Each getter returns the variable, or throws an \<^verbatim>\<open>Error\<close> (\<open>Inl\<close> with its message) when
  the variable is unset or empty.\<close>

definition getHuggingFaceApiKey :: "Env \<Rightarrow> string + string" where
  "getHuggingFaceApiKey e =
     (case HUGGINGFACE_API_KEY e of
        None \<Rightarrow> Inl ''HUGGINGFACE_API_KEY is not configured. Please set it in .env.local''
      | Some apiKey \<Rightarrow>
          if apiKey = []
          then Inl ''HUGGINGFACE_API_KEY is not configured. Please set it in .env.local''
          else Inr apiKey)"

definition getCloudflareAccountId :: "Env \<Rightarrow> string + string" where
  "getCloudflareAccountId e =
     (case CLOUDFLARE_ACCOUNT_ID e of
        None \<Rightarrow> Inl ''CLOUDFLARE_ACCOUNT_ID is not configured. Please set it in .env.local''
      | Some accountId \<Rightarrow>
          if accountId = []
          then Inl ''CLOUDFLARE_ACCOUNT_ID is not configured. Please set it in .env.local''
          else Inr accountId)"

definition getCloudflareApiToken :: "Env \<Rightarrow> string + string" where
  "getCloudflareApiToken e =
     (case CLOUDFLARE_API_TOKEN e of
        None \<Rightarrow> Inl ''CLOUDFLARE_API_TOKEN is not configured. Please set it in .env.local''
      | Some apiToken \<Rightarrow>
          if apiToken = []
          then Inl ''CLOUDFLARE_API_TOKEN is not configured. Please set it in .env.local''
          else Inr apiToken)"

section \<open>The prompt builder (lib/prompt-builder.ts)\<close>

text \<open>The field \<^verbatim>\<open>promptSuffix\<close> of \<^verbatim>\<open>STYLE_CONFIGS\<close> (types/index.ts).\<close>

fun promptSuffix :: "StylePreset \<Rightarrow> string" where
  "promptSuffix default = ''blue tones''"
| "promptSuffix warm = ''warm orange and red tones''"
| "promptSuffix monochrome = ''grayscale monochrome''"
| "promptSuffix pastel = ''soft pastel colors''"

definition buildPrompt :: "string \<Rightarrow> StylePreset \<Rightarrow> string" where
  "buildPrompt userPrompt st =
     (let basePrompt = ''isometric 3D icon of '' @ userPrompt
      in basePrompt @ '', '' @ promptSuffix st
           @ '', clean background, minimalist design, high quality'')"

section \<open>What both adapters share\<close>

text \<open>The \<^verbatim>\<open>catch\<close> blocks test \<^verbatim>\<open>error instanceof Error && error.name === 'AbortError'\<close> and
  read \<^verbatim>\<open>error instanceof Error ? error.message : 'Network error occurred.'\<close>.\<close>

fun isAbortError :: "Thrown \<Rightarrow> bool" where
  "isAbortError (JsError nm msg) = (nm = ''AbortError'')"
| "isAbortError NonError = False"

fun thrownMessage :: "Thrown \<Rightarrow> string" where
  "thrownMessage (JsError nm msg) = msg"
| "thrownMessage NonError = ''Network error occurred.''"

text \<open>\<^verbatim>\<open>parseRetryAfter\<close>, the same private method in both adapters.\<close>

definition parseRetryAfter :: "Platform \<Rightarrow> Response \<Rightarrow> int option" where
  "parseRetryAfter pf response =
     (case header_Retry_After response of
        None \<Rightarrow> None
      | Some h \<Rightarrow> if h = [] then None else parseInt pf h)"

section \<open>The Hugging Face adapter (lib/providers/huggingface-provider.ts)\<close>

definition HUGGINGFACE_API_URL :: string where
  "HUGGINGFACE_API_URL =
     ''https://router.huggingface.co/hf-inference/models/black-forest-labs/FLUX.1-schnell''"

definition HF_DEFAULT_TIMEOUT_MS :: int where
  "HF_DEFAULT_TIMEOUT_MS = 30000"

definition DEFAULT_NEGATIVE_PROMPT :: string where
  "DEFAULT_NEGATIVE_PROMPT = ''blurry, low quality, distorted, ugly''"

text \<open>\<^verbatim>\<open>HuggingFaceProvider.getErrorMessage\<close>: \<^verbatim>\<open>json.error || json.message || text\<close> when the
  body is a non-empty text that parses, the text when it does not parse, else undefined.\<close>

definition hf_getErrorMessage :: "Platform \<Rightarrow> Response \<Rightarrow> string option" where
  "hf_getErrorMessage pf response =
     (case body_text response of
        None \<Rightarrow> None
      | Some txt \<Rightarrow>
          if txt = [] then None
          else (case JSON_parse pf txt of
                  ParseThrows \<Rightarrow> Some txt
                | ParsedFields e m \<Rightarrow> Some (or_else e (or_else m txt))))"

definition HuggingFaceProvider_generate ::
  "Platform \<Rightarrow> string \<Rightarrow> GenerationOptions \<Rightarrow> Request list \<Rightarrow> ProviderResult \<times> Request list" where
  "HuggingFaceProvider_generate pf prompt options w =
     (let tmo = (case timeout options of None \<Rightarrow> HF_DEFAULT_TIMEOUT_MS | Some t \<Rightarrow> t);
          negPrompt = (case negativePrompt options of
                         None \<Rightarrow> DEFAULT_NEGATIVE_PROMPT | Some n \<Rightarrow> n)
      in case getHuggingFaceApiKey (env pf) of
           Inl err \<Rightarrow>
             (\<lparr> pr_success = False, pr_image = None,
                 pr_error = Some \<lparr> code = SERVER_ERROR,
                                   message = ''Server configuration error.'',
                                   retryAfter = None,
                                   shouldFallback = False \<rparr> \<rparr>, w)
         | Inr apiKey \<Rightarrow>
             (let fullPrompt = buildPrompt prompt (style options)
              in case fetch pf \<lparr> url = HUGGINGFACE_API_URL,
                                 authorization = ''Bearer '' @ apiKey,
                                 body = HuggingFaceBody fullPrompt negPrompt,
                                 timeoutMs = tmo \<rparr> w of
                   (Threw err, w1) \<Rightarrow>
                     if isAbortError err then
                       (\<lparr> pr_success = False, pr_image = None,
                           pr_error = Some createTimeoutError \<rparr>, w1)
                     else
                       (\<lparr> pr_success = False, pr_image = None,
                           pr_error = Some \<lparr> code = SERVER_ERROR,
                                             message = thrownMessage err,
                                             retryAfter = None,
                                             shouldFallback = True \<rparr> \<rparr>, w1)
                 | (Responded response, w1) \<Rightarrow>
                     if \<not> ok response then
                       (let retry = parseRetryAfter pf response;
                            errorMessage = hf_getErrorMessage pf response
                        in (\<lparr> pr_success = False, pr_image = None,
                               pr_error = Some (createProviderError (status response)
                                                  errorMessage retry) \<rparr>, w1))
                     else
                       (case body_base64 response of
                          Some base64Image \<Rightarrow>
                            (\<lparr> pr_success = True,
                                pr_image = Some (''data:image/png;base64,'' @ base64Image),
                                pr_error = None \<rparr>, w1)
                        | None \<Rightarrow>
                            (\<lparr> pr_success = False, pr_image = None,
                                pr_error = Some \<lparr> code = SERVER_ERROR,
                                   message = ''Failed to process image response.'',
                                   retryAfter = None,
                                   shouldFallback = True \<rparr> \<rparr>, w1))))"

definition createHuggingFaceProvider :: "Platform \<Rightarrow> Request list ImageProvider" where
  "createHuggingFaceProvider pf =
     \<lparr> name = huggingface, generate = HuggingFaceProvider_generate pf \<rparr>"

section \<open>The Cloudflare adapter (lib/providers/cloudflare-provider.ts)\<close>

definition CLOUDFLARE_MODEL :: string where
  "CLOUDFLARE_MODEL = ''@cf/black-forest-labs/flux-1-schnell''"

definition CF_DEFAULT_TIMEOUT_MS :: int where
  "CF_DEFAULT_TIMEOUT_MS = 60000"

definition buildApiUrl :: "string \<Rightarrow> string" where
  "buildApiUrl accountId =
     ''https://api.cloudflare.com/client/v4/accounts/'' @ accountId @ ''/ai/run/''
       @ CLOUDFLARE_MODEL"

text \<open>\<^verbatim>\<open>response.errors?.[0]?.message\<close>.\<close>

definition firstErrorMessage :: "CloudflareImageResponse \<Rightarrow> string option" where
  "firstErrorMessage response =
     (case cf_errors response of
        None \<Rightarrow> None
      | Some [] \<Rightarrow> None
      | Some (e # es) \<Rightarrow> Some (cf_error_message e))"

text \<open>\<^verbatim>\<open>response.result?.image\<close>.\<close>

definition resultImage :: "CloudflareImageResponse \<Rightarrow> string option" where
  "resultImage response =
     (case cf_result response of None \<Rightarrow> None | Some r \<Rightarrow> cf_image r)"

text \<open>
  \<^verbatim>\<open>transformCloudflareResponse\<close>. Its test \<^verbatim>\<open>response.success && response.result?.image\<close>
  holds when \<^verbatim>\<open>success\<close> is true and the image is defined and not the empty string.
\<close>

definition transformCloudflareResponse :: "CloudflareImageResponse \<Rightarrow> ProviderResult" where
  "transformCloudflareResponse response =
     (let errorMessage = or_else (firstErrorMessage response) ''Failed to generate image.'';
          failed = \<lparr> pr_success = False, pr_image = None,
                     pr_error = Some \<lparr> code = SERVER_ERROR,
                                       message = errorMessage,
                                       retryAfter = None,
                                       shouldFallback = False \<rparr> \<rparr>
      in case resultImage response of
           None \<Rightarrow> failed
         | Some img \<Rightarrow>
             if cf_success response \<and> img \<noteq> []
             then \<lparr> pr_success = True,
                    pr_image = Some (''data:image/png;base64,'' @ img),
                    pr_error = None \<rparr>
             else failed)"

text \<open>\<^verbatim>\<open>CloudflareProvider.getErrorMessage\<close>.\<close>

definition cf_getErrorMessage :: "Response \<Rightarrow> string option" where
  "cf_getErrorMessage response =
     (case body_json response of None \<Rightarrow> None | Some d \<Rightarrow> firstErrorMessage d)"

definition CloudflareProvider_generate ::
  "Platform \<Rightarrow> string \<Rightarrow> GenerationOptions \<Rightarrow> Request list \<Rightarrow> ProviderResult \<times> Request list" where
  "CloudflareProvider_generate pf prompt options w =
     (let tmo = (case timeout options of None \<Rightarrow> CF_DEFAULT_TIMEOUT_MS | Some t \<Rightarrow> t)
      in case getCloudflareAccountId (env pf) of
           Inl err \<Rightarrow>
             (\<lparr> pr_success = False, pr_image = None,
                 pr_error = Some \<lparr> code = SERVER_ERROR,
                                   message = ''Server configuration error.'',
                                   retryAfter = None,
                                   shouldFallback = False \<rparr> \<rparr>, w)
         | Inr accountId \<Rightarrow>
         (case getCloudflareApiToken (env pf) of
           Inl err \<Rightarrow>
             (\<lparr> pr_success = False, pr_image = None,
                 pr_error = Some \<lparr> code = SERVER_ERROR,
                                   message = ''Server configuration error.'',
                                   retryAfter = None,
                                   shouldFallback = False \<rparr> \<rparr>, w)
         | Inr apiToken \<Rightarrow>
             (let fullPrompt = buildPrompt prompt (style options)
              in case fetch pf \<lparr> url = buildApiUrl accountId,
                                 authorization = ''Bearer '' @ apiToken,
                                 body = CloudflareBody fullPrompt,
                                 timeoutMs = tmo \<rparr> w of
                   (Threw err, w1) \<Rightarrow>
                     if isAbortError err then
                       (\<lparr> pr_success = False, pr_image = None,
                           pr_error = Some \<lparr> code = TIMEOUT,
                                 message = ''Request timed out. Please try again.'',
                                 retryAfter = None,
                                 shouldFallback = False \<rparr> \<rparr>, w1)
                     else
                       (\<lparr> pr_success = False, pr_image = None,
                           pr_error = Some \<lparr> code = SERVER_ERROR,
                                             message = thrownMessage err,
                                             retryAfter = None,
                                             shouldFallback = False \<rparr> \<rparr>, w1)
                 | (Responded response, w1) \<Rightarrow>
                     if \<not> ok response then
                       (let retry = parseRetryAfter pf response;
                            errorMessage = cf_getErrorMessage response
                        in (\<lparr> pr_success = False, pr_image = None,
                               pr_error = Some (classifyCloudflareError (status response)
                                                  errorMessage retry) \<rparr>, w1))
                     else
                       (case body_json response of
                          Some d \<Rightarrow> (transformCloudflareResponse d, w1)
                        | None \<Rightarrow>
                            (\<lparr> pr_success = False, pr_image = None,
                                pr_error = Some \<lparr> code = SERVER_ERROR,
                                   message = ''Failed to parse response.'',
                                   retryAfter = None,
                                   shouldFallback = False \<rparr> \<rparr>, w1)))))"

definition createCloudflareProvider :: "Platform \<Rightarrow> Request list ImageProvider" where
  "createCloudflareProvider pf =
     \<lparr> name = cloudflare, generate = CloudflareProvider_generate pf \<rparr>"

text \<open>\<^verbatim>\<open>createProviderManager\<close>: Hugging Face as primary, Cloudflare as fallback.\<close>

definition createProviderManager :: "Platform \<Rightarrow> Request list ProviderManager" where
  "createProviderManager pf =
     \<lparr> primaryProvider = createHuggingFaceProvider pf,
       fallbackProvider = createCloudflareProvider pf \<rparr>"

section \<open>Test doubles (the property tests of the Provider Manager)\<close>

text \<open>
  The mock provider of the property tests returns a fixed result and leaves the world
  alone; the calls it receives are recorded by \<open>spy\<close>.
\<close>

definition MockProvider :: "ProviderName \<Rightarrow> ProviderResult \<Rightarrow> 'w ImageProvider" where
  "MockProvider n r = \<lparr> name = n, generate = (\<lambda>prompt options w. (r, w)) \<rparr>"

definition createSuccessResult :: "string \<Rightarrow> ProviderResult" where
  "createSuccessResult img = \<lparr> pr_success = True, pr_image = Some img, pr_error = None \<rparr>"

definition createFallbackError :: "string \<Rightarrow> int option \<Rightarrow> ProviderResult" where
  "createFallbackError msg retry =
     \<lparr> pr_success = False, pr_image = None,
       pr_error = Some \<lparr> code = RATE_LIMIT, message = msg, retryAfter = retry,
                         shouldFallback = True \<rparr> \<rparr>"

definition createNonFallbackError :: "string \<Rightarrow> ProviderResult" where
  "createNonFallbackError msg =
     \<lparr> pr_success = False, pr_image = None,
       pr_error = Some \<lparr> code = UNAUTHORIZED, message = msg, retryAfter = None,
                         shouldFallback = False \<rparr> \<rparr>"

text \<open>The options \<^verbatim>\<open>{style: 'default'}\<close>.\<close>

definition defaultOptions :: GenerationOptions where
  "defaultOptions = \<lparr> style = default, negativePrompt = None, timeout = None \<rparr>"

section \<open>Concrete platforms\<close>

text \<open>
  Platforms to run the adapters on: an environment with every variable set and one with
  none, and a network that gives every request the same response.
\<close>

definition fullEnv :: Env where
  "fullEnv = \<lparr> HUGGINGFACE_API_KEY = Some ''hf_test'',
               CLOUDFLARE_ACCOUNT_ID = Some ''account'',
               CLOUDFLARE_API_TOKEN = Some ''token'' \<rparr>"

definition emptyEnv :: Env where
  "emptyEnv = \<lparr> HUGGINGFACE_API_KEY = None,
                CLOUDFLARE_ACCOUNT_ID = None,
                CLOUDFLARE_API_TOKEN = None \<rparr>"

definition answering :: "Env \<Rightarrow> Response \<Rightarrow> Platform" where
  "answering e r =
     \<lparr> env = e,
       parseInt = (\<lambda>s. None),
       JSON_parse = (\<lambda>s. ParseThrows),
       network = (\<lambda>sent req. Responded r) \<rparr>"

text \<open>A response with status 200 whose body cannot be read, and one whose JSON body
  carries the image \<open>img\<close>.\<close>

definition unreadable200 :: Response where
  "unreadable200 =
     \<lparr> ok = True, status = 200, header_Retry_After = None,
       body_text = None, body_json = None, body_base64 = None \<rparr>"


definition imageBody :: "string \<Rightarrow> CloudflareImageResponse" where
  "imageBody img =
     \<lparr> cf_success = True, cf_result = Some \<lparr> cf_image = Some img \<rparr>,
       cf_errors = None, cf_messages = None \<rparr>"

definition image200 :: "string \<Rightarrow> Response" where
  "image200 img =
     \<lparr> ok = True, status = 200, header_Retry_After = None,
       body_text = None, body_json = Some (imageBody img), body_base64 = None \<rparr>"

section \<open>Properties of the error classifier\<close>

lemma shouldTriggerFallback_iff:
  "shouldTriggerFallback s \<longleftrightarrow> s \<in> {402, 403, 429} \<or> (500 \<le> s \<and> s < 600)"
  by (auto simp: shouldTriggerFallback_def FALLBACK_HTTP_STATUSES_def
      NON_FALLBACK_HTTP_STATUSES_def)

lemma createProviderError_sel:
  "code (createProviderError s m r) = httpStatusToErrorCode s"
  "shouldFallback (createProviderError s m r) = shouldTriggerFallback s"
  "retryAfter (createProviderError s m r) =
     (if httpStatusToErrorCode s = RATE_LIMIT
      then Some (case r of None \<Rightarrow> 60 | Some x \<Rightarrow> x) else r)"
  by (simp_all add: createProviderError_def Let_def)

lemma classifyCloudflareError_sel:
  "code (classifyCloudflareError s m r) = httpStatusToErrorCode s"
  "shouldFallback (classifyCloudflareError s m r) = False"
  "retryAfter (classifyCloudflareError s m r) =
     (if httpStatusToErrorCode s = RATE_LIMIT then r else None)"
  by (simp_all add: classifyCloudflareError_def Let_def)

text \<open>
  C2 (recoverability partition). For a status among 402, 403, 429, 500, 503 or in the
  range from 500 up to 600 excluded, the error the primary classifier
  \<^verbatim>\<open>createProviderError\<close> builds has \<^verbatim>\<open>shouldFallback\<close> true; for 400 and 401 it is
  false; and the error the secondary classifier \<^verbatim>\<open>classifyCloudflareError\<close> builds has
  it false for every status, whatever message and retry hint come with the status.
\<close>

theorem recoverability_partition:
  "(s \<in> {402, 403, 429, 500, 503} \<or> (500 \<le> s \<and> s < 600)
      \<longrightarrow> shouldFallback (createProviderError s m r) = True)
   \<and> (s \<in> {400, 401} \<longrightarrow> shouldFallback (createProviderError s m r) = False)
   \<and> shouldFallback (classifyCloudflareError s m r) = False"
  by (auto simp: createProviderError_sel shouldTriggerFallback_iff
      classifyCloudflareError_sel)

text \<open>The partition at 429, at 502 and at 401.\<close>

theorem recoverability_partition_witness:
  "(429::int) \<in> {402, 403, 429, 500, 503}
   \<and> shouldFallback (createProviderError 429 None None) = True
   \<and> (500::int) \<le> 502 \<and> (502::int) < 600
   \<and> shouldFallback (createProviderError 502 None None) = True
   \<and> (401::int) \<in> {400, 401}
   \<and> shouldFallback (createProviderError 401 None None) = False
   \<and> shouldFallback (classifyCloudflareError 429 None None) = False
   \<and> shouldFallback (classifyCloudflareError 502 None None) = False"
  using recoverability_partition [of 429 None None]
    recoverability_partition [of 502 None None]
    recoverability_partition [of 401 None None]
  by simp

text \<open>
  C7 (retry hint on a code other than \<^verbatim>\<open>RATE_LIMIT\<close>), as the code has it. When the status
  maps to a code other than \<^verbatim>\<open>RATE_LIMIT\<close> and a hint \<open>h\<close> is supplied, the secondary
  classifier returns an error without \<^verbatim>\<open>retryAfter\<close>, and the primary classifier returns
  an error whose \<^verbatim>\<open>retryAfter\<close> is the hint \<open>h\<close>, unchanged: the primary does not drop it.
\<close>

theorem retry_hint_outside_rate_limit:
  "httpStatusToErrorCode s \<noteq> RATE_LIMIT \<Longrightarrow>
     code (classifyCloudflareError s m (Some h)) \<noteq> RATE_LIMIT
     \<and> retryAfter (classifyCloudflareError s m (Some h)) = None
     \<and> code (createProviderError s m (Some h)) \<noteq> RATE_LIMIT
     \<and> retryAfter (createProviderError s m (Some h)) = Some h"
  by (simp add: classifyCloudflareError_sel createProviderError_sel)

text \<open>Status 503 with the hint 30.\<close>

theorem retry_hint_outside_rate_limit_witness:
  "httpStatusToErrorCode 503 \<noteq> RATE_LIMIT
   \<and> retryAfter (classifyCloudflareError 503 None (Some 30)) = None
   \<and> retryAfter (createProviderError 503 None (Some 30)) = Some 30"
proof -
  have h: "httpStatusToErrorCode 503 \<noteq> RATE_LIMIT"
    by (simp add: httpStatusToErrorCode_def)
  show ?thesis
    using h retry_hint_outside_rate_limit [OF h, of None 30] by simp
qed

text \<open>
  The primary classifier called with status 503 and the hint 30 returns the code
  \<^verbatim>\<open>SERVICE_UNAVAILABLE\<close>, which is not \<^verbatim>\<open>RATE_LIMIT\<close>, and still carries a retry time.
\<close>

theorem primary_keeps_retry_hint:
  "code (createProviderError 503 None (Some 30)) = SERVICE_UNAVAILABLE
   \<and> code (createProviderError 503 None (Some 30)) \<noteq> RATE_LIMIT
   \<and> retryAfter (createProviderError 503 None (Some 30)) \<noteq> None"
  by (simp add: createProviderError_def httpStatusToErrorCode_def Let_def)

text \<open>
  C8 (unclassified statuses), as the code has it. For a status outside 400, 401, 402,
  403, 429, 500, 503 and outside the range from 500 up to 600 excluded, the primary
  classifier returns an error with \<^verbatim>\<open>shouldFallback\<close> false, so that such a status never
  triggers fallback; its code is \<^verbatim>\<open>UNKNOWN\<close>, except for status 408, whose code is
  \<^verbatim>\<open>TIMEOUT\<close>.
\<close>

theorem unclassified_status_no_fallback:
  "s \<notin> {400, 401, 402, 403, 429, 500, 503} \<Longrightarrow> \<not> (500 \<le> s \<and> s < 600) \<Longrightarrow>
     code (createProviderError s m r) = (if s = 408 then TIMEOUT else UNKNOWN)
     \<and> httpStatusToErrorCode s = (if s = 408 then TIMEOUT else UNKNOWN)
     \<and> shouldTriggerFallback s = False
     \<and> shouldFallback (createProviderError s m r) = False"
  by (auto simp: createProviderError_sel shouldTriggerFallback_iff httpStatusToErrorCode_def)

text \<open>Status 404 and status 408.\<close>

theorem unclassified_status_no_fallback_witness:
  "(404::int) \<notin> {400, 401, 402, 403, 429, 500, 503} \<and> \<not> (500 \<le> (404::int) \<and> (404::int) < 600)
   \<and> code (createProviderError 404 None None) = UNKNOWN
   \<and> shouldFallback (createProviderError 404 None None) = False
   \<and> (408::int) \<notin> {400, 401, 402, 403, 429, 500, 503} \<and> \<not> (500 \<le> (408::int) \<and> (408::int) < 600)
   \<and> code (createProviderError 408 None None) = TIMEOUT
   \<and> shouldFallback (createProviderError 408 None None) = False"
proof -
  have a: "(404::int) \<notin> {400, 401, 402, 403, 429, 500, 503}"
    and b: "\<not> (500 \<le> (404::int) \<and> (404::int) < 600)"
    and c: "(408::int) \<notin> {400, 401, 402, 403, 429, 500, 503}"
    and d: "\<not> (500 \<le> (408::int) \<and> (408::int) < 600)"
    by simp_all
  show ?thesis
    using unclassified_status_no_fallback [OF a b, of None None]
      unclassified_status_no_fallback [OF c d, of None None]
    by simp
qed

text \<open>Status 408 is outside the enumerated set and outside the 5xx range, and its code is
  not \<^verbatim>\<open>UNKNOWN\<close>.\<close>

theorem status_408_is_timeout:
  "(408::int) \<notin> {400, 401, 402, 403, 429, 500, 503}
   \<and> \<not> (500 \<le> (408::int) \<and> (408::int) < 600)
   \<and> httpStatusToErrorCode 408 = TIMEOUT
   \<and> code (createProviderError 408 None None) \<noteq> UNKNOWN"
  by (simp add: createProviderError_def httpStatusToErrorCode_def Let_def)

section \<open>Properties of the Provider Manager\<close>

subsection \<open>The four ways a request ends\<close>

lemma generate_primary_success:
  assumes "generate (primaryProvider m) prompt options w = (r1, w1)" and "pr_success r1"
  shows "ProviderManager_generate m prompt options w =
           (\<lparr> gr_success = True, gr_image = pr_image r1,
               gr_provider = Some (name (primaryProvider m)),
               gr_error = None, gr_fallbackAttempted = Some False \<rparr>, w1)"
  using assms by (simp add: ProviderManager_generate_def)

lemma generate_primary_final:
  assumes "generate (primaryProvider m) prompt options w = (r1, w1)"
    and "\<not> pr_success r1" and "\<not> recoverable_failure r1"
  shows "ProviderManager_generate m prompt options w =
           (\<lparr> gr_success = False, gr_image = None,
               gr_provider = Some (name (primaryProvider m)),
               gr_error = map_option Single (pr_error r1),
               gr_fallbackAttempted = Some False \<rparr>, w1)"
  using assms
  by (simp add: ProviderManager_generate_def recoverable_failure_def split: option.splits)

lemma generate_fallback_success:
  assumes "generate (primaryProvider m) prompt options w = (r1, w1)"
    and "recoverable_failure r1"
    and "generate (fallbackProvider m) prompt options w1 = (r2, w2)"
    and "pr_success r2"
  shows "ProviderManager_generate m prompt options w =
           (\<lparr> gr_success = True, gr_image = pr_image r2,
               gr_provider = Some (name (fallbackProvider m)),
               gr_error = None, gr_fallbackAttempted = Some True \<rparr>, w2)"
  using assms
  by (auto simp: ProviderManager_generate_def recoverable_failure_def split: option.splits)

lemma generate_both_fail:
  assumes "generate (primaryProvider m) prompt options w = (r1, w1)"
    and "\<not> pr_success r1" and "pr_error r1 = Some pe" and "shouldFallback pe"
    and "generate (fallbackProvider m) prompt options w1 = (r2, w2)"
    and "\<not> pr_success r2"
  shows "ProviderManager_generate m prompt options w =
           (\<lparr> gr_success = False, gr_image = None, gr_provider = None,
               gr_error = Some (Dual (createDualProviderError pe (pr_error r2))),
               gr_fallbackAttempted = Some True \<rparr>, w2)"
  using assms by (simp add: ProviderManager_generate_def)

subsection \<open>The calls a request makes\<close>

lemma spy_sel:
  "name (spy r p) = name p"
  "generate (spy r p) prompt options (w, cs) =
     (fst (generate p prompt options w),
      (snd (generate p prompt options w),
       cs @ [\<lparr> call_role = r, call_prompt = prompt, call_options = options \<rparr>]))"
  by (simp_all add: spy_def split: prod.splits)

lemma spied_sel:
  "primaryProvider (spied P F) = spy Primary P"
  "fallbackProvider (spied P F) = spy Secondary F"
  by (simp_all add: spied_def)

lemma spied_calls:
  assumes "generate P prompt options w = (r1, w1)"
  shows "snd (snd (ProviderManager_generate (spied P F) prompt options (w, cs))) =
           cs @ \<lparr> call_role = Primary, call_prompt = prompt, call_options = options \<rparr>
              # (if recoverable_failure r1
                 then [\<lparr> call_role = Secondary, call_prompt = prompt, call_options = options \<rparr>]
                 else [])"
  using assms
  by (simp add: ProviderManager_generate_def spied_def spy_sel recoverable_failure_def
      split: option.splits prod.splits)

lemma mock_sel:
  "name (MockProvider n r) = n"
  "generate (MockProvider n r) prompt options w = (r, w)"
  by (simp_all add: MockProvider_def)

text \<open>
  C1 (primary first). Let the manager run with its two providers observed, on any
  prompt, options and world, and let \<open>r1\<close> be what the primary provider returns for that
  prompt and those options in that world. Then the calls made are the primary alone, or
  the primary and then the secondary: the primary is called first and exactly once, and
  the secondary is called if and only if \<open>r1\<close> is a failure whose error has
  \<^verbatim>\<open>shouldFallback\<close> true. When \<open>r1\<close> is a success the result is a success with the
  primary's image, the primary's name as provider and \<^verbatim>\<open>fallbackAttempted\<close> false. When
  \<open>r1\<close> is a failure that is not recoverable, the result is a failure carrying the error
  of \<open>r1\<close> as it is, the primary's name as provider and \<^verbatim>\<open>fallbackAttempted\<close> false.
\<close>

theorem generate_primary_first:
  assumes prim: "generate P prompt options w = (r1, w1)"
    and run: "ProviderManager_generate (spied P F) prompt options (w, []) = (res, (w', calls))"
  shows "map call_role calls =
           (if recoverable_failure r1 then [Primary, Secondary] else [Primary])
       \<and> hd (map call_role calls) = Primary
       \<and> count_list (map call_role calls) Primary = 1
       \<and> (Secondary \<in> set (map call_role calls)) = recoverable_failure r1
       \<and> (pr_success r1 \<longrightarrow>
            res = \<lparr> gr_success = True, gr_image = pr_image r1, gr_provider = Some (name P),
                    gr_error = None, gr_fallbackAttempted = Some False \<rparr>)
       \<and> (\<not> pr_success r1 \<and> \<not> recoverable_failure r1 \<longrightarrow>
            res = \<lparr> gr_success = False, gr_image = None, gr_provider = Some (name P),
                    gr_error = map_option Single (pr_error r1),
                    gr_fallbackAttempted = Some False \<rparr>)"
proof -
  have calls: "calls = \<lparr> call_role = Primary, call_prompt = prompt, call_options = options \<rparr>
              # (if recoverable_failure r1
                 then [\<lparr> call_role = Secondary, call_prompt = prompt, call_options = options \<rparr>]
                 else [])"
    using spied_calls [OF prim, of F "[]"] run by simp
  have sprim: "generate (primaryProvider (spied P F)) prompt options (w, []) =
      (r1, (w1, [\<lparr> call_role = Primary, call_prompt = prompt, call_options = options \<rparr>]))"
    using prim by (simp add: spied_sel spy_sel)
  have succeeded: "res = \<lparr> gr_success = True, gr_image = pr_image r1,
                    gr_provider = Some (name P),
                    gr_error = None, gr_fallbackAttempted = Some False \<rparr>" if "pr_success r1"
    using generate_primary_success [OF sprim that] run by (simp add: spied_sel spy_sel)
  have final: "res = \<lparr> gr_success = False, gr_image = None, gr_provider = Some (name P),
                    gr_error = map_option Single (pr_error r1),
                    gr_fallbackAttempted = Some False \<rparr>"
    if "\<not> pr_success r1" "\<not> recoverable_failure r1"
    using generate_primary_final [OF sprim that] run by (simp add: spied_sel spy_sel)
  show ?thesis using calls succeeded final by auto
qed

text \<open>
  Three requests with mock providers: the primary succeeds; the primary fails with an
  error that is not recoverable; the primary fails with a recoverable error and the
  secondary succeeds.
\<close>

theorem generate_primary_first_witness:
  "ProviderManager_generate
      (spied (MockProvider huggingface (createSuccessResult ''img''))
             (MockProvider cloudflare (createSuccessResult ''other'')))
      ''cat'' defaultOptions ((), []) =
     (\<lparr> gr_success = True, gr_image = Some ''img'', gr_provider = Some huggingface,
         gr_error = None, gr_fallbackAttempted = Some False \<rparr>,
      ((), [\<lparr> call_role = Primary, call_prompt = ''cat'', call_options = defaultOptions \<rparr>]))
   \<and> ProviderManager_generate
      (spied (MockProvider huggingface (createNonFallbackError ''denied''))
             (MockProvider cloudflare (createSuccessResult ''other'')))
      ''cat'' defaultOptions ((), []) =
     (\<lparr> gr_success = False, gr_image = None, gr_provider = Some huggingface,
         gr_error = map_option Single (pr_error (createNonFallbackError ''denied'')),
         gr_fallbackAttempted = Some False \<rparr>,
      ((), [\<lparr> call_role = Primary, call_prompt = ''cat'', call_options = defaultOptions \<rparr>]))
   \<and> map call_role (snd (snd (ProviderManager_generate
      (spied (MockProvider huggingface (createFallbackError ''busy'' None))
             (MockProvider cloudflare (createSuccessResult ''other'')))
      ''cat'' defaultOptions ((), [])))) = [Primary, Secondary]"
proof -
  let ?F = "MockProvider cloudflare (createSuccessResult ''other'') :: unit ImageProvider"
  let ?P1 = "MockProvider huggingface (createSuccessResult ''img'') :: unit ImageProvider"
  let ?P2 = "MockProvider huggingface (createNonFallbackError ''denied'') :: unit ImageProvider"
  let ?P3 = "MockProvider huggingface (createFallbackError ''busy'' None) :: unit ImageProvider"
  let ?run = "\<lambda>P. ProviderManager_generate (spied P ?F) ''cat'' defaultOptions ((), [])"
  let ?pc = "\<lparr> call_role = Primary, call_prompt = ''cat'', call_options = defaultOptions \<rparr>"
  let ?sc = "\<lparr> call_role = Secondary, call_prompt = ''cat'', call_options = defaultOptions \<rparr>"
  have p1: "generate ?P1 ''cat'' defaultOptions () = (createSuccessResult ''img'', ())"
    and p2: "generate ?P2 ''cat'' defaultOptions () = (createNonFallbackError ''denied'', ())"
    and p3: "generate ?P3 ''cat'' defaultOptions () = (createFallbackError ''busy'' None, ())"
    by (simp_all add: mock_sel)
  have r1: "?run ?P1 =
     (\<lparr> gr_success = True, gr_image = Some ''img'', gr_provider = Some huggingface,
         gr_error = None, gr_fallbackAttempted = Some False \<rparr>, ((), [?pc]))"
    by (simp add: ProviderManager_generate_def spied_sel spy_sel mock_sel
        createSuccessResult_def)
  have r2: "?run ?P2 =
     (\<lparr> gr_success = False, gr_image = None, gr_provider = Some huggingface,
         gr_error = map_option Single (pr_error (createNonFallbackError ''denied'')),
         gr_fallbackAttempted = Some False \<rparr>, ((), [?pc]))"
    by (simp add: ProviderManager_generate_def spied_sel spy_sel mock_sel
        createNonFallbackError_def)
  have r3: "?run ?P3 =
     (\<lparr> gr_success = True, gr_image = Some ''other'', gr_provider = Some cloudflare,
         gr_error = None, gr_fallbackAttempted = Some True \<rparr>, ((), [?pc, ?sc]))"
    by (simp add: ProviderManager_generate_def spied_sel spy_sel mock_sel
        createFallbackError_def createSuccessResult_def)
  show ?thesis
    using generate_primary_first [OF p1 r1] generate_primary_first [OF p2 r2]
      generate_primary_first [OF p3 r3] r1 r2 r3
    by simp
qed

text \<open>
  C5 (parameter preservation). Every call the manager makes during a request, to the
  primary and to the secondary provider, carries the prompt and the options the request
  was made with; so whenever the secondary is called, it receives the very prompt and
  options the primary received.
\<close>

theorem fallback_receives_same_arguments:
  assumes run: "ProviderManager_generate (spied P F) prompt options (w, []) = (res, (w', calls))"
  shows "(\<forall>c \<in> set calls. call_prompt c = prompt \<and> call_options c = options)
       \<and> (\<forall>s \<in> set calls. \<forall>p \<in> set calls.
             call_role s = Secondary \<and> call_role p = Primary \<longrightarrow>
               call_prompt s = call_prompt p \<and> call_options s = call_options p)"
proof -
  obtain r1 w1 where prim: "generate P prompt options w = (r1, w1)"
    by (cases "generate P prompt options w")
  have "\<forall>c \<in> set calls. call_prompt c = prompt \<and> call_options c = options"
    using spied_calls [OF prim, of F "[]"] run by auto
  then show ?thesis by simp
qed

text \<open>A request whose primary fails with a recoverable error, so that the secondary is
  called: both calls carry the prompt and the options of the request.\<close>

theorem fallback_receives_same_arguments_witness:
  "ProviderManager_generate
      (spied (MockProvider huggingface (createFallbackError ''busy'' None))
             (MockProvider cloudflare (createSuccessResult ''other'')))
      ''cat'' \<lparr> style = warm, negativePrompt = Some ''text'', timeout = Some 5000 \<rparr> ((), []) =
     (\<lparr> gr_success = True, gr_image = Some ''other'', gr_provider = Some cloudflare,
         gr_error = None, gr_fallbackAttempted = Some True \<rparr>,
      ((), [\<lparr> call_role = Primary, call_prompt = ''cat'',
               call_options = \<lparr> style = warm, negativePrompt = Some ''text'',
                                timeout = Some 5000 \<rparr> \<rparr>,
            \<lparr> call_role = Secondary, call_prompt = ''cat'',
               call_options = \<lparr> style = warm, negativePrompt = Some ''text'',
                                timeout = Some 5000 \<rparr> \<rparr>]))"
proof -
  have run: "ProviderManager_generate
      (spied (MockProvider huggingface (createFallbackError ''busy'' None))
             (MockProvider cloudflare (createSuccessResult ''other'')))
      ''cat'' \<lparr> style = warm, negativePrompt = Some ''text'', timeout = Some 5000 \<rparr> ((), []) =
     (\<lparr> gr_success = True, gr_image = Some ''other'', gr_provider = Some cloudflare,
         gr_error = None, gr_fallbackAttempted = Some True \<rparr>,
      ((), [\<lparr> call_role = Primary, call_prompt = ''cat'',
               call_options = \<lparr> style = warm, negativePrompt = Some ''text'',
                                timeout = Some 5000 \<rparr> \<rparr>,
            \<lparr> call_role = Secondary, call_prompt = ''cat'',
               call_options = \<lparr> style = warm, negativePrompt = Some ''text'',
                                timeout = Some 5000 \<rparr> \<rparr>]))"
    by (simp add: ProviderManager_generate_def spied_sel spy_sel mock_sel
        createFallbackError_def createSuccessResult_def)
  show ?thesis
    using fallback_receives_same_arguments [OF run] run by simp
qed

subsection \<open>Both providers fail\<close>

text \<open>
  C4 (minimum retry time). Let the primary provider fail with an error \<open>pe\<close> that has
  \<^verbatim>\<open>shouldFallback\<close> true, so that the secondary is called, and let the secondary fail
  too, with the result \<open>r2\<close>. Then the manager returns a failure whose error is a dual
  error. With \<open>A\<close> the \<^verbatim>\<open>retryAfter\<close> of \<open>pe\<close> and \<open>B\<close> the \<^verbatim>\<open>retryAfter\<close> of the error of \<open>r2\<close>
  (undefined when \<open>r2\<close> has no error), the dual error's \<^verbatim>\<open>retryAfter\<close> is the minimum of
  \<open>A\<close> and \<open>B\<close> when both are defined, the one that is defined when only one is, and
  undefined when neither is. The dual error has \<^verbatim>\<open>shouldFallback\<close> false; the result has
  \<^verbatim>\<open>fallbackAttempted\<close> true and no \<^verbatim>\<open>provider\<close>.
\<close>

theorem dual_failure_minimum_retry:
  assumes prim: "generate (primaryProvider m) prompt options w = (r1, w1)"
    and pfail: "\<not> pr_success r1" "pr_error r1 = Some pe" "shouldFallback pe"
    and fb: "generate (fallbackProvider m) prompt options w1 = (r2, w2)"
    and ffail: "\<not> pr_success r2"
  shows "ProviderManager_generate m prompt options w =
           (\<lparr> gr_success = False, gr_image = None, gr_provider = None,
               gr_error = Some (Dual
                 \<lparr> de_code = DUAL_PROVIDER_FAILURE,
                   de_message = ''Both image generation services are currently unavailable.'',
                   de_primaryError = message pe,
                   de_fallbackError =
                     or_else (map_option message (pr_error r2)) ''Unknown fallback error'',
                   de_retryAfter =
                     (case (retryAfter pe, Option.bind (pr_error r2) retryAfter) of
                        (Some a, Some b) \<Rightarrow> Some (min a b)
                      | (Some a, None) \<Rightarrow> Some a
                      | (None, Some b) \<Rightarrow> Some b
                      | (None, None) \<Rightarrow> None),
                   de_shouldFallback = False \<rparr>),
               gr_fallbackAttempted = Some True \<rparr>, w2)"
  using generate_both_fail [OF prim pfail fb ffail]
  by (simp add: createDualProviderError_def calculateMinRetryTime_def Let_def
      split: option.splits)

text \<open>
  The primary answers 500 with no retry time and the secondary 429 with 45 seconds: the
  dual error says 45. The primary is rate-limited for 30 seconds and the secondary for
  45: the dual error says 30.
\<close>

theorem dual_failure_minimum_retry_witness:
  "ProviderManager_generate
     \<lparr> primaryProvider =
         MockProvider huggingface
           \<lparr> pr_success = False, pr_image = None,
             pr_error = Some (createProviderError 500 None None) \<rparr>,
       fallbackProvider =
         MockProvider cloudflare
           \<lparr> pr_success = False, pr_image = None,
             pr_error = Some (classifyCloudflareError 429 None (Some 45)) \<rparr> \<rparr>
     ''cat'' defaultOptions () =
   (\<lparr> gr_success = False, gr_image = None, gr_provider = None,
       gr_error = Some (Dual
         \<lparr> de_code = DUAL_PROVIDER_FAILURE,
           de_message = ''Both image generation services are currently unavailable.'',
           de_primaryError = ''A server error occurred. Please try again.'',
           de_fallbackError = ''Too many requests. Please try again later.'',
           de_retryAfter = Some 45,
           de_shouldFallback = False \<rparr>),
       gr_fallbackAttempted = Some True \<rparr>, ())
   \<and> ProviderManager_generate
     \<lparr> primaryProvider = MockProvider huggingface (createFallbackError ''busy'' (Some 30)),
       fallbackProvider =
         MockProvider cloudflare
           \<lparr> pr_success = False, pr_image = None,
             pr_error = Some (classifyCloudflareError 429 None (Some 45)) \<rparr> \<rparr>
     ''cat'' defaultOptions () =
   (\<lparr> gr_success = False, gr_image = None, gr_provider = None,
       gr_error = Some (Dual
         \<lparr> de_code = DUAL_PROVIDER_FAILURE,
           de_message = ''Both image generation services are currently unavailable.'',
           de_primaryError = ''busy'',
           de_fallbackError = ''Too many requests. Please try again later.'',
           de_retryAfter = Some 30,
           de_shouldFallback = False \<rparr>),
       gr_fallbackAttempted = Some True \<rparr>, ())"
proof -
  let ?r2 = "\<lparr> pr_success = False, pr_image = None,
               pr_error = Some (classifyCloudflareError 429 None (Some 45)) \<rparr>"
  let ?F = "MockProvider cloudflare ?r2 :: unit ImageProvider"
  let ?ra = "\<lparr> pr_success = False, pr_image = None,
               pr_error = Some (createProviderError 500 None None) \<rparr>"
  let ?ma = "\<lparr> primaryProvider = MockProvider huggingface ?ra, fallbackProvider = ?F \<rparr>"
  let ?rb = "createFallbackError ''busy'' (Some 30)"
  let ?mb = "\<lparr> primaryProvider = MockProvider huggingface ?rb, fallbackProvider = ?F \<rparr>"
  have cf: "classifyCloudflareError 429 None (Some 45) =
      \<lparr> code = RATE_LIMIT, message = ''Too many requests. Please try again later.'',
        retryAfter = Some 45, shouldFallback = False \<rparr>"
    by (simp add: classifyCloudflareError_def httpStatusToErrorCode_def or_else_def)
  have hf: "createProviderError 500 None None =
      \<lparr> code = SERVER_ERROR, message = ''A server error occurred. Please try again.'',
        retryAfter = None, shouldFallback = True \<rparr>"
    by (simp add: createProviderError_def httpStatusToErrorCode_def or_else_def
        shouldTriggerFallback_iff)
  have a: "generate (primaryProvider ?ma) ''cat'' defaultOptions () = (?ra, ())"
    and b: "generate (primaryProvider ?mb) ''cat'' defaultOptions () = (?rb, ())"
    and f: "generate (fallbackProvider ?ma) ''cat'' defaultOptions () = (?r2, ())"
    and g: "generate (fallbackProvider ?mb) ''cat'' defaultOptions () = (?r2, ())"
    by (simp_all add: mock_sel)
  have a1: "\<not> pr_success ?ra" and a2: "pr_error ?ra = Some (createProviderError 500 None None)"
    and a3: "shouldFallback (createProviderError 500 None None)"
    and b1: "\<not> pr_success ?rb"
    and b2: "pr_error ?rb = Some \<lparr> code = RATE_LIMIT, message = ''busy'',
                                    retryAfter = Some 30, shouldFallback = True \<rparr>"
    and b3: "shouldFallback \<lparr> code = RATE_LIMIT, message = ''busy'',
                               retryAfter = Some 30, shouldFallback = True \<rparr>"
    and f1: "\<not> pr_success ?r2"
    by (simp_all add: hf createFallbackError_def)
  show ?thesis
    using dual_failure_minimum_retry [OF a a1 a2 a3 f f1]
      dual_failure_minimum_retry [OF b b1 b2 b3 g f1]
    by (simp add: hf cf or_else_def)
qed

text \<open>
  C10 (fallback failure without an error). Let the primary provider fail with an error
  \<open>pe\<close> that has \<^verbatim>\<open>shouldFallback\<close> true, and let the secondary return a result with
  \<^verbatim>\<open>success\<close> false and no \<^verbatim>\<open>error\<close>. Then the manager returns: its result is a failure
  with \<^verbatim>\<open>fallbackAttempted\<close> true carrying a \<^verbatim>\<open>DUAL_PROVIDER_FAILURE\<close> error whose
  \<^verbatim>\<open>fallbackError\<close> is the string \<^verbatim>\<open>Unknown fallback error\<close>, whose \<^verbatim>\<open>primaryError\<close> is the
  message of \<open>pe\<close> and whose \<^verbatim>\<open>retryAfter\<close> is that of \<open>pe\<close>.
\<close>

theorem dual_failure_without_fallback_error:
  assumes prim: "generate (primaryProvider m) prompt options w = (r1, w1)"
    and pfail: "\<not> pr_success r1" "pr_error r1 = Some pe" "shouldFallback pe"
    and fb: "generate (fallbackProvider m) prompt options w1 = (r2, w2)"
    and ffail: "\<not> pr_success r2" "pr_error r2 = None"
  shows "ProviderManager_generate m prompt options w =
           (\<lparr> gr_success = False, gr_image = None, gr_provider = None,
               gr_error = Some (Dual
                 \<lparr> de_code = DUAL_PROVIDER_FAILURE,
                   de_message = ''Both image generation services are currently unavailable.'',
                   de_primaryError = message pe,
                   de_fallbackError = ''Unknown fallback error'',
                   de_retryAfter = retryAfter pe,
                   de_shouldFallback = False \<rparr>),
               gr_fallbackAttempted = Some True \<rparr>, w2)"
  using generate_both_fail [OF prim pfail fb ffail(1)] ffail(2)
  by (simp add: createDualProviderError_def calculateMinRetryTime_def Let_def or_else_def
      split: option.splits)

text \<open>The primary is rate-limited for 30 seconds; the secondary returns a bare failure.\<close>

theorem dual_failure_without_fallback_error_witness:
  "ProviderManager_generate
     \<lparr> primaryProvider = MockProvider huggingface (createFallbackError ''busy'' (Some 30)),
       fallbackProvider =
         MockProvider cloudflare \<lparr> pr_success = False, pr_image = None, pr_error = None \<rparr> \<rparr>
     ''cat'' defaultOptions () =
   (\<lparr> gr_success = False, gr_image = None, gr_provider = None,
       gr_error = Some (Dual
         \<lparr> de_code = DUAL_PROVIDER_FAILURE,
           de_message = ''Both image generation services are currently unavailable.'',
           de_primaryError = ''busy'',
           de_fallbackError = ''Unknown fallback error'',
           de_retryAfter = Some 30,
           de_shouldFallback = False \<rparr>),
       gr_fallbackAttempted = Some True \<rparr>, ())"
  using dual_failure_without_fallback_error
    [of "\<lparr> primaryProvider = MockProvider huggingface (createFallbackError ''busy'' (Some 30)),
           fallbackProvider = MockProvider cloudflare
             \<lparr> pr_success = False, pr_image = None, pr_error = None \<rparr> \<rparr>"
      "''cat''" defaultOptions "()" "createFallbackError ''busy'' (Some 30)" "()"
      "\<lparr> code = RATE_LIMIT, message = ''busy'', retryAfter = Some 30, shouldFallback = True \<rparr>"
      "\<lparr> pr_success = False, pr_image = None, pr_error = None \<rparr>" "()"]
  by (simp add: mock_sel createFallbackError_def)

section \<open>Properties of the adapters\<close>

lemma answering_sel:
  "env (answering e r) = e"
  "network (answering e r) sent req = Responded r"
  by (simp_all add: answering_def)

lemma fullEnv_credentials:
  "getHuggingFaceApiKey fullEnv = Inr ''hf_test''"
  "getCloudflareAccountId fullEnv = Inr ''account''"
  "getCloudflareApiToken fullEnv = Inr ''token''"
  by (simp_all add: fullEnv_def getHuggingFaceApiKey_def getCloudflareAccountId_def
      getCloudflareApiToken_def)

lemma emptyEnv_credentials:
  "isl (getHuggingFaceApiKey emptyEnv)"
  "isl (getCloudflareAccountId emptyEnv)"
  "isl (getCloudflareApiToken emptyEnv)"
  by (simp_all add: emptyEnv_def getHuggingFaceApiKey_def getCloudflareAccountId_def
      getCloudflareApiToken_def)

text \<open>
  C3 (missing credentials), as the code has it. When the API key of the primary adapter
  cannot be resolved, and when the account id or the API token of the secondary adapter
  cannot, \<^verbatim>\<open>generate\<close> returns a failure with code \<^verbatim>\<open>SERVER_ERROR\<close> and sends no request:
  the list of requests sent is the one it started with. The error has \<^verbatim>\<open>shouldFallback\<close>
  false in both adapters, the primary included.
\<close>

theorem missing_credentials_server_error:
  "(isl (getHuggingFaceApiKey (env pf)) \<longrightarrow>
      HuggingFaceProvider_generate pf prompt options w =
        (\<lparr> pr_success = False, pr_image = None,
            pr_error = Some \<lparr> code = SERVER_ERROR, message = ''Server configuration error.'',
                              retryAfter = None, shouldFallback = False \<rparr> \<rparr>, w))
   \<and> (isl (getCloudflareAccountId (env pf)) \<or> isl (getCloudflareApiToken (env pf)) \<longrightarrow>
      CloudflareProvider_generate pf prompt options w =
        (\<lparr> pr_success = False, pr_image = None,
            pr_error = Some \<lparr> code = SERVER_ERROR, message = ''Server configuration error.'',
                              retryAfter = None, shouldFallback = False \<rparr> \<rparr>, w))"
  by (auto simp: HuggingFaceProvider_generate_def CloudflareProvider_generate_def Let_def
      split: sum.splits)

text \<open>Both adapters on a platform with no environment variable set.\<close>

theorem missing_credentials_server_error_witness:
  "isl (getHuggingFaceApiKey (env (answering emptyEnv unreadable200)))
   \<and> isl (getCloudflareAccountId (env (answering emptyEnv unreadable200)))
   \<and> HuggingFaceProvider_generate (answering emptyEnv unreadable200) ''cat'' defaultOptions [] =
        (\<lparr> pr_success = False, pr_image = None,
            pr_error = Some \<lparr> code = SERVER_ERROR, message = ''Server configuration error.'',
                              retryAfter = None, shouldFallback = False \<rparr> \<rparr>, [])
   \<and> CloudflareProvider_generate (answering emptyEnv unreadable200) ''cat'' defaultOptions [] =
        (\<lparr> pr_success = False, pr_image = None,
            pr_error = Some \<lparr> code = SERVER_ERROR, message = ''Server configuration error.'',
                              retryAfter = None, shouldFallback = False \<rparr> \<rparr>, [])"
  using missing_credentials_server_error
    [of "answering emptyEnv unreadable200" "''cat''" defaultOptions "[]"]
  by (simp add: answering_sel emptyEnv_credentials)

text \<open>
  With no API key set, the key of the primary adapter cannot be resolved, and the error
  the primary adapter returns does not have \<^verbatim>\<open>shouldFallback\<close> true.
\<close>

theorem primary_missing_key_not_recoverable:
  "isl (getHuggingFaceApiKey (env (answering emptyEnv unreadable200)))
   \<and> map_option shouldFallback
        (pr_error (fst (HuggingFaceProvider_generate (answering emptyEnv unreadable200)
                          ''cat'' defaultOptions []))) = Some False
   \<and> map_option shouldFallback
        (pr_error (fst (HuggingFaceProvider_generate (answering emptyEnv unreadable200)
                          ''cat'' defaultOptions []))) \<noteq> Some True"
  by (simp add: answering_sel emptyEnv_def getHuggingFaceApiKey_def
      HuggingFaceProvider_generate_def Let_def)




text \<open>
  C9 (data URL), as the code has it. For every base 64 string \<open>S\<close> that is not empty, a
  response of the secondary backend with \<^verbatim>\<open>success\<close> true and \<^verbatim>\<open>result.image\<close> equal to \<open>S\<close>
  is transformed into a success whose image is \<^verbatim>\<open>data:image/png;base64,\<close> followed by \<open>S\<close>,
  and so is the output of the secondary adapter when its credentials resolve and the
  backend answers with a success status and that body.
\<close>

theorem data_url_of_nonempty_image:
  assumes "S \<noteq> []"
  shows "transformCloudflareResponse
           \<lparr> cf_success = True, cf_result = Some \<lparr> cf_image = Some S \<rparr>,
             cf_errors = es, cf_messages = ms \<rparr>
         = \<lparr> pr_success = True, pr_image = Some (''data:image/png;base64,'' @ S),
             pr_error = None \<rparr>
       \<and> (getCloudflareAccountId (env pf) = Inr a \<and> getCloudflareApiToken (env pf) = Inr t
           \<and> (\<forall>req. network pf w req = Responded r) \<and> ok r
           \<and> body_json r = Some \<lparr> cf_success = True, cf_result = Some \<lparr> cf_image = Some S \<rparr>,
                                  cf_errors = es, cf_messages = ms \<rparr>
           \<longrightarrow> fst (CloudflareProvider_generate pf prompt options w) =
                 \<lparr> pr_success = True, pr_image = Some (''data:image/png;base64,'' @ S),
                   pr_error = None \<rparr>)"
  using assms
  by (auto simp: transformCloudflareResponse_def resultImage_def Let_def
      CloudflareProvider_generate_def fetch_def)

text \<open>The image \<^verbatim>\<open>aGk=\<close>.\<close>

theorem data_url_of_nonempty_image_witness:
  "''aGk='' \<noteq> []
   \<and> transformCloudflareResponse (imageBody ''aGk='') =
       \<lparr> pr_success = True, pr_image = Some ''data:image/png;base64,aGk='', pr_error = None \<rparr>
   \<and> fst (CloudflareProvider_generate (answering fullEnv (image200 ''aGk=''))
            ''cat'' defaultOptions []) =
       \<lparr> pr_success = True, pr_image = Some ''data:image/png;base64,aGk='', pr_error = None \<rparr>"
proof -
  have ne: "''aGk='' \<noteq> []" by simp
  show ?thesis
    using data_url_of_nonempty_image [OF ne, of None None "answering fullEnv (image200 ''aGk='')"
        "''account''" "''token''" "[]" "image200 ''aGk=''" "''cat''" defaultOptions]
    by (simp add: answering_sel fullEnv_credentials image200_def imageBody_def)
qed

text \<open>
  A response with \<^verbatim>\<open>success\<close> true whose image is the empty string is transformed into a
  failure, not into the success with the image \<^verbatim>\<open>data:image/png;base64,\<close>.
\<close>

theorem empty_image_is_failure:
  "transformCloudflareResponse (imageBody []) \<noteq>
     \<lparr> pr_success = True, pr_image = Some (''data:image/png;base64,'' @ []),
       pr_error = None \<rparr>
   \<and> transformCloudflareResponse (imageBody []) =
     \<lparr> pr_success = False, pr_image = None,
       pr_error = Some \<lparr> code = SERVER_ERROR, message = ''Failed to generate image.'',
                         retryAfter = None, shouldFallback = False \<rparr> \<rparr>"
  by (simp add: transformCloudflareResponse_def resultImage_def firstErrorMessage_def
      or_else_def Let_def imageBody_def)

section \<open>The default manager, end to end\<close>

text \<open>
  The manager \<^verbatim>\<open>createProviderManager\<close> builds, run on a platform with no environment
  variable set: the request ends at the primary adapter with its configuration error,
  the fallback is not attempted and no request is sent.
\<close>

lemma default_manager_without_credentials:
  "ProviderManager_generate (createProviderManager (answering emptyEnv r))
     ''cat'' defaultOptions [] =
   (\<lparr> gr_success = False, gr_image = None, gr_provider = Some huggingface,
       gr_error = Some (Single \<lparr> code = SERVER_ERROR,
                                 message = ''Server configuration error.'',
                                 retryAfter = None, shouldFallback = False \<rparr>),
       gr_fallbackAttempted = Some False \<rparr>, [])"
  by (simp add: ProviderManager_generate_def createProviderManager_def
      createHuggingFaceProvider_def HuggingFaceProvider_generate_def Let_def
      answering_sel emptyEnv_def getHuggingFaceApiKey_def)

text \<open>
  The same manager with every variable set, against backends that answer 200 with the
  image \<^verbatim>\<open>aGk=\<close>: the primary adapter, which reads the body as bytes, cannot read this
  body and fails with a recoverable error; the fallback adapter succeeds. Two requests
  are sent, the first to Hugging Face and the second to Cloudflare.
\<close>

lemma default_manager_falls_back:
  "fst (ProviderManager_generate (createProviderManager (answering fullEnv (image200 ''aGk='')))
     ''cat'' defaultOptions []) =
   \<lparr> gr_success = True, gr_image = Some ''data:image/png;base64,aGk='',
     gr_provider = Some cloudflare, gr_error = None, gr_fallbackAttempted = Some True \<rparr>
   \<and> map url (snd (ProviderManager_generate
         (createProviderManager (answering fullEnv (image200 ''aGk='')))
         ''cat'' defaultOptions [])) =
     [HUGGINGFACE_API_URL, buildApiUrl ''account'']"
  by (simp add: ProviderManager_generate_def createProviderManager_def
      createHuggingFaceProvider_def HuggingFaceProvider_generate_def
      createCloudflareProvider_def CloudflareProvider_generate_def Let_def
      answering_sel fullEnv_credentials fetch_def image200_def imageBody_def
      transformCloudflareResponse_def resultImage_def)

end
